theory Spec2Isabelle
  imports Main "HOL-Library.Monad_Syntax"
begin

section \<open>The intermediate model (src/types/index.ts)\<close>

text \<open>
  \<^verbatim>\<open>SchemaObject\<close> is an interface whose fields are all optional; an absent field is
  \<open>None\<close>. \<^verbatim>\<open>properties\<close> is a \<^verbatim>\<open>Record<string, SchemaObject>\<close>, kept here as an
  association list in insertion order; \<^verbatim>\<open>additionalProperties\<close> is
  \<^verbatim>\<open>boolean | SchemaObject\<close>, a sum.
\<close>

datatype SchemaObject = SchemaObject
  (s_type: "string option")
  (s_properties: "(string \<times> SchemaObject) list option")
  (s_items: "SchemaObject option")
  (s_required: "string list option")
  (s_enum: "string list option")
  (s_description: "string option")
  (s_ref: "string option")
  (s_allOf: "SchemaObject list option")
  (s_anyOf: "SchemaObject list option")
  (s_oneOf: "SchemaObject list option")
  (s_format: "string option")
  (s_additionalProperties: "(bool + SchemaObject) option")

text \<open>The object literal \<^verbatim>\<open>{}\<close>, and \<^verbatim>\<open>{ $ref: r }\<close>.\<close>

definition emptySchema :: SchemaObject where
  "emptySchema = SchemaObject None None None None None None None None None None None None"

definition refOnly :: "string \<Rightarrow> SchemaObject" where
  "refOnly r = SchemaObject None None None None None None (Some r) None None None None None"

record ParsedMessage =
  pm_name :: string
  pm_description :: "string option"
  pm_payload :: SchemaObject
  pm_headers :: "SchemaObject option"

record ParsedOperation =
  po_action :: string
  po_channel :: string
  po_messages :: "ParsedMessage list"
  po_description :: "string option"

record Operations =
  send :: "ParsedOperation list"
  receive :: "ParsedOperation list"

record ParsedChannel =
  pc_name :: string
  pc_address :: "string option"
  pc_description :: "string option"
  pc_messages :: "ParsedMessage list"
  pc_operations :: Operations

record ParsedAsyncAPI =
  title :: string
  version :: string
  description :: "string option"
  channels :: "ParsedChannel list"
  messages :: "ParsedMessage list"
  schemas :: "(string \<times> SchemaObject) list"

section \<open>The extractor (src/parser/asyncapi-parser.ts)\<close>

subsection \<open>What the extractor reads\<close>

text \<open>
  The document model of the validating parser, as far as the extractor reads it through
  \<^verbatim>\<open>getSchemaProperty\<close> and the collection accessors. \<^verbatim>\<open>getSchemaProperty\<close> turns
  \<^verbatim>\<open>null\<close> and \<^verbatim>\<open>undefined\<close> alike into \<^verbatim>\<open>undefined\<close>: both are \<open>None\<close> here.

  The validating parser resolves every reference in place, so its schema objects form a
  graph, and a schema that refers to itself (a list node whose \<^verbatim>\<open>next\<close> is a list node)
  makes the graph loop. Read through the accessors, as the extractor reads it, such a graph
  is a tree that may go on for ever: \<open>Schema\<close> is a codatatype.
\<close>

codatatype Schema = Schema
  (d_type: "string option")
  (d_description: "string option")
  (d_format: "string option")
  (d_properties: "(string \<times> Schema) list option")
  (d_items: "Schema option")
  (d_required: "string list option")
  (d_enum: "string list option")
  (d_allOf: "Schema list option")
  (d_anyOf: "Schema list option")
  (d_oneOf: "Schema list option")
  (d_ref: "string option")
  (d_additionalProperties: "(bool + Schema) option")

text \<open>
  The raw document tree (\<^verbatim>\<open>JSON.parse(content)\<close>) at a schema location, as far as the
  optional chains \<^verbatim>\<open>rawSchemaPath?.properties?.[key]\<close>, \<^verbatim>\<open>rawSchemaPath?.items\<close>,
  \<^verbatim>\<open>rawSchemaPath?.allOf?.[i]\<close>, ... read it. Of the raw document the extractor reads
  \<^verbatim>\<open>components.messages\<close> and \<^verbatim>\<open>components.schemas\<close>; the messages written under
  \<^verbatim>\<open>channels\<close> are part of the tree and are never read.
\<close>

datatype RawSchema = RawSchema
  (r_ref: "string option")
  (r_properties: "(string \<times> RawSchema) list option")
  (r_items: "RawSchema option")
  (r_allOf: "RawSchema list option")
  (r_anyOf: "RawSchema list option")
  (r_oneOf: "RawSchema list option")
  (r_additionalProperties: "RawSchema option")

record RawMessage =
  rm_payload :: "RawSchema option"
  rm_headers :: "RawSchema option"

record RawSpec =
  raw_channels :: "(string \<times> (string \<times> RawMessage) list) list option"
  raw_messages :: "(string \<times> RawMessage) list option"
  raw_schemas :: "(string \<times> RawSchema) list option"

record Message =
  m_id :: string
  m_description :: "string option"
  m_payload :: "Schema option"
  m_headers :: "Schema option"

record Channel =
  c_id :: string
  c_address :: "string option"
  c_description :: "string option"
  c_messages :: "Message list"

record Operation =
  o_channels :: "Channel list"
  o_action :: string
  o_messages :: "Message list"
  o_description :: "string option"

text \<open>
  \<^verbatim>\<open>components.schemas().all()\<close>, each schema with its \<^verbatim>\<open>id()\<close>: the \<^verbatim>\<open>$id\<close> the schema gives
  itself when it has one, its key under \<^verbatim>\<open>components.schemas\<close> otherwise. Two schemas of the
  collection may answer the same id.
\<close>

record Components =
  comp_messages :: "Message list"
  comp_schemas :: "(string \<times> Schema) list"

record Document =
  info_title :: string
  info_version :: string
  info_description :: "string option"
  doc_channels :: "Channel list"
  doc_operations :: "Operation list"
  doc_components :: "Components option"

subsection \<open>convertSchemaToObject\<close>

text \<open>JavaScript truthiness of a string that may be absent: \<^verbatim>\<open>if (s) ...\<close>.\<close>

definition truthy :: "string option \<Rightarrow> string option" where
  "truthy v = (case v of None \<Rightarrow> None | Some s \<Rightarrow> if s = [] then None else Some s)"

text \<open>\<^verbatim>\<open>required && required.length > 0\<close>.\<close>

definition nonEmpty :: "'a list option \<Rightarrow> 'a list option" where
  "nonEmpty v = (case v of None \<Rightarrow> None | Some xs \<Rightarrow> if xs = [] then None else Some xs)"

text \<open>\<^verbatim>\<open>rawSchemaPath && rawSchemaPath.$ref\<close>: the pointer when it is there and truthy.\<close>

definition rawRef :: "RawSchema option \<Rightarrow> string option" where
  "rawRef raw = (case raw of None \<Rightarrow> None | Some r \<Rightarrow> truthy (r_ref r))"

text \<open>\<^verbatim>\<open>rawSchemaPath?.properties?.[key]\<close>.\<close>

definition rawProp :: "RawSchema option \<Rightarrow> string \<Rightarrow> RawSchema option" where
  "rawProp raw key =
     (case raw of None \<Rightarrow> None
      | Some r \<Rightarrow> (case r_properties r of None \<Rightarrow> None | Some ps \<Rightarrow> map_of ps key))"

text \<open>\<^verbatim>\<open>rawSchemaPath?.allOf?.[i]\<close>: an index past the end reads \<^verbatim>\<open>undefined\<close>.\<close>

definition rawAt :: "RawSchema list option \<Rightarrow> nat \<Rightarrow> RawSchema option" where
  "rawAt rs i =
     (case rs of None \<Rightarrow> None | Some xs \<Rightarrow> if i < length xs then Some (xs ! i) else None)"

definition rawField :: "(RawSchema \<Rightarrow> 'a option) \<Rightarrow> RawSchema option \<Rightarrow> 'a option" where
  "rawField f raw = (case raw of None \<Rightarrow> None | Some r \<Rightarrow> f r)"


text \<open>
  \<^verbatim>\<open>obj[key] = value\<close> on an object kept as the list of its entries: the value of a key that
  is there is replaced where it stands, a new key goes to the end.
\<close>

fun assign :: "'k \<Rightarrow> 'v \<Rightarrow> ('k \<times> 'v) list \<Rightarrow> ('k \<times> 'v) list" where
  "assign key v [] = [(key, v)]"
| "assign key v ((key', v') # rest) =
     (if key' = key then (key, v) # rest else (key', v') # assign key v rest)"

text \<open>
  \<^verbatim>\<open>convertSchemaToObject\<close> calls itself for every nested schema and keeps no record of the
  schemas it is in: on a graph that loops, and where no \<^verbatim>\<open>$ref\<close> of the raw tree stops it, it
  goes down until the engine's call stack is used up and the engine throws
  \<^verbatim>\<open>RangeError: Maximum call stack size exceeded\<close>. The first argument is the number of
  nested calls the stack still has room for, and \<open>None\<close> is that \<^verbatim>\<open>RangeError\<close>; nothing
  in the extractor catches it.

  The fields are read in the source's order: \<^verbatim>\<open>type\<close>, \<^verbatim>\<open>description\<close>, \<^verbatim>\<open>format\<close>,
  \<^verbatim>\<open>properties\<close>, \<^verbatim>\<open>items\<close>, \<^verbatim>\<open>required\<close>, \<^verbatim>\<open>enum\<close>, \<^verbatim>\<open>allOf\<close>, \<^verbatim>\<open>anyOf\<close>, \<^verbatim>\<open>oneOf\<close>,
  \<^verbatim>\<open>$ref\<close>, \<^verbatim>\<open>additionalProperties\<close>.
\<close>

function convertSchemaToObject :: "nat \<Rightarrow> Schema option \<Rightarrow> RawSchema option \<Rightarrow> SchemaObject option"
and convertProperties ::
  "nat \<Rightarrow> (string \<times> Schema) list \<Rightarrow> RawSchema option \<Rightarrow> (string \<times> SchemaObject) list
     \<Rightarrow> (string \<times> SchemaObject) list option"
and convertBranches :: "nat \<Rightarrow> Schema list \<Rightarrow> RawSchema list option \<Rightarrow> nat \<Rightarrow> SchemaObject list option"
where
  "convertSchemaToObject 0 schema rawSchemaPath = None"
| "convertSchemaToObject (Suc stack) None rawSchemaPath = Some emptySchema"
| "convertSchemaToObject (Suc stack) (Some schema) rawSchemaPath =
     (case rawRef rawSchemaPath of
        Some r \<Rightarrow> Some (refOnly r)
      | None \<Rightarrow> do {
          properties \<leftarrow>
            (case nonEmpty (d_properties schema) of
               None \<Rightarrow> Some None
             | Some properties \<Rightarrow>
                 map_option Some (convertProperties stack properties rawSchemaPath []));
          items \<leftarrow>
            (case d_items schema of
               None \<Rightarrow> Some None
             | Some items \<Rightarrow>
                 map_option Some
                   (convertSchemaToObject stack (Some items) (rawField r_items rawSchemaPath)));
          allOf \<leftarrow>
            (case d_allOf schema of
               None \<Rightarrow> Some None
             | Some allOf \<Rightarrow>
                 map_option Some (convertBranches stack allOf (rawField r_allOf rawSchemaPath) 0));
          anyOf \<leftarrow>
            (case d_anyOf schema of
               None \<Rightarrow> Some None
             | Some anyOf \<Rightarrow>
                 map_option Some (convertBranches stack anyOf (rawField r_anyOf rawSchemaPath) 0));
          oneOf \<leftarrow>
            (case d_oneOf schema of
               None \<Rightarrow> Some None
             | Some oneOf \<Rightarrow>
                 map_option Some (convertBranches stack oneOf (rawField r_oneOf rawSchemaPath) 0));
          additionalProperties \<leftarrow>
            (case d_additionalProperties schema of
               None \<Rightarrow> Some None
             | Some (Inl b) \<Rightarrow> Some (Some (Inl b))
             | Some (Inr additionalProps) \<Rightarrow>
                 map_option (\<lambda>obj. Some (Inr obj))
                   (convertSchemaToObject stack (Some additionalProps)
                      (rawField r_additionalProperties rawSchemaPath)));
          Some (SchemaObject
                  (truthy (d_type schema))
                  properties
                  items
                  (nonEmpty (d_required schema))
                  (nonEmpty (d_enum schema))
                  (truthy (d_description schema))
                  (truthy (d_ref schema))
                  allOf anyOf oneOf
                  (truthy (d_format schema))
                  additionalProperties)
        })"
| "convertProperties stack [] rawSchemaPath obj = Some obj"
| "convertProperties stack ((key, prop) # rest) rawSchemaPath obj = do {
     converted \<leftarrow> convertSchemaToObject stack (Some prop) (rawProp rawSchemaPath key);
     convertProperties stack rest rawSchemaPath (assign key converted obj)
   }"
| "convertBranches stack [] raws i = Some []"
| "convertBranches stack (s # rest) raws i = do {
     converted \<leftarrow> convertSchemaToObject stack (Some s) (rawAt raws i);
     others \<leftarrow> convertBranches stack rest raws (Suc i);
     Some (converted # others)
   }"
  by pat_completeness auto
termination
  by (relation "inv_image (less_than <*lex*> less_than)
        (\<lambda>x. case x of
                Inl (stack, _, _) \<Rightarrow> (stack, 0)
              | Inr (Inl (stack, properties, _, _)) \<Rightarrow> (stack, Suc (length properties))
              | Inr (Inr (stack, branches, _, _)) \<Rightarrow> (stack, Suc (length branches)))")
     auto

subsection \<open>Channels, operations, messages, schemas\<close>

text \<open>
  \<^verbatim>\<open>collection.forEach(x => list.push(f(x)))\<close> and \<^verbatim>\<open>collection.map(f)\<close> where \<^verbatim>\<open>f\<close> may throw:
  the first throw ends the loop and leaves the function.
\<close>

fun collect :: "('a \<Rightarrow> 'b option) \<Rightarrow> 'a list \<Rightarrow> 'b list option" where
  "collect f [] = Some []"
| "collect f (x # xs) = do { y \<leftarrow> f x; ys \<leftarrow> collect f xs; Some (y # ys) }"

text \<open>\<^verbatim>\<open>collection.forEach\<close> with a body that updates a variable of the function and may throw.\<close>

fun forEach :: "('s \<Rightarrow> 'a \<Rightarrow> 's option) \<Rightarrow> 'a list \<Rightarrow> 's \<Rightarrow> 's option" where
  "forEach body [] s = Some s"
| "forEach body (x # xs) s = do { s' \<leftarrow> body s x; forEach body xs s' }"

text \<open>
  A message of a channel or of an operation: payload and headers are converted without
  the raw tree (\<^verbatim>\<open>this.convertSchemaToObject(payload)\<close>).
\<close>

definition convertMessage :: "nat \<Rightarrow> Message \<Rightarrow> ParsedMessage option" where
  "convertMessage stack msg = do {
     payload \<leftarrow> convertSchemaToObject stack (m_payload msg) None;
     headers \<leftarrow> (case m_headers msg of
                   None \<Rightarrow> Some None
                 | Some headers \<Rightarrow> map_option Some (convertSchemaToObject stack (Some headers) None));
     Some \<lparr> pm_name = m_id msg, pm_description = m_description msg,
            pm_payload = payload, pm_headers = headers \<rparr>
   }"

definition extractMessagesFromChannel :: "nat \<Rightarrow> Channel \<Rightarrow> ParsedMessage list option" where
  "extractMessagesFromChannel stack channel = collect (convertMessage stack) (c_messages channel)"

text \<open>
  One turn of the \<^verbatim>\<open>forEach\<close> of \<^verbatim>\<open>extractOperationsFromChannel\<close>:
  \<^verbatim>\<open>operation.channels().all()[0]\<close> reads the first listed channel only, and an
  operation with an empty channel list or another first channel leaves both lists as they
  are, its messages unread. The messages of an operation of the channel are converted
  before its action is looked at; an action that is neither \<^verbatim>\<open>send\<close> nor \<^verbatim>\<open>receive\<close> then
  leaves both lists as they are.
\<close>

definition mkOperation :: "nat \<Rightarrow> string \<Rightarrow> Operation \<Rightarrow> ParsedOperation option" where
  "mkOperation stack channelId operation = do {
     messages \<leftarrow> collect (convertMessage stack) (o_messages operation);
     Some \<lparr> po_action = o_action operation,
            po_channel = channelId,
            po_messages = messages,
            po_description = o_description operation \<rparr>
   }"

definition addOperation :: "nat \<Rightarrow> string \<Rightarrow> Operations \<Rightarrow> Operation \<Rightarrow> Operations option" where
  "addOperation stack channelId operations operation =
     (case o_channels operation of
        [] \<Rightarrow> Some operations
      | channel # _ \<Rightarrow>
          if c_id channel = channelId then do {
            op \<leftarrow> mkOperation stack channelId operation;
            Some (if o_action operation = ''send''
                    then operations\<lparr>send := send operations @ [op]\<rparr>
                  else if o_action operation = ''receive''
                    then operations\<lparr>receive := receive operations @ [op]\<rparr>
                  else operations)
          }
          else Some operations)"

definition extractOperationsFromChannel :: "nat \<Rightarrow> Document \<Rightarrow> string \<Rightarrow> Operations option" where
  "extractOperationsFromChannel stack document channelId =
     forEach (addOperation stack channelId) (doc_operations document) \<lparr>send = [], receive = []\<rparr>"

definition extractChannels :: "nat \<Rightarrow> Document \<Rightarrow> ParsedChannel list option" where
  "extractChannels stack document =
     collect (\<lambda>channel. do {
                messages \<leftarrow> extractMessagesFromChannel stack channel;
                operations \<leftarrow> extractOperationsFromChannel stack document (c_id channel);
                Some \<lparr> pc_name = c_id channel,
                       pc_address = c_address channel,
                       pc_description = c_description channel,
                       pc_messages = messages,
                       pc_operations = operations \<rparr>
              })
       (doc_channels document)"

text \<open>\<^verbatim>\<open>this.rawSpec?.components?.messages?.[messageId]\<close> and its \<^verbatim>\<open>schemas\<close> sibling.\<close>

definition rawMessage :: "RawSpec option \<Rightarrow> string \<Rightarrow> RawMessage option" where
  "rawMessage rawSpec messageId =
     (case rawSpec of None \<Rightarrow> None
      | Some raw \<Rightarrow> (case raw_messages raw of None \<Rightarrow> None | Some ms \<Rightarrow> map_of ms messageId))"

definition rawSchema :: "RawSpec option \<Rightarrow> string \<Rightarrow> RawSchema option" where
  "rawSchema rawSpec schemaId =
     (case rawSpec of None \<Rightarrow> None
      | Some raw \<Rightarrow> (case raw_schemas raw of None \<Rightarrow> None | Some ss \<Rightarrow> map_of ss schemaId))"

definition extractAllMessages :: "nat \<Rightarrow> RawSpec option \<Rightarrow> Document \<Rightarrow> ParsedMessage list option" where
  "extractAllMessages stack rawSpec document =
     (case doc_components document of
        None \<Rightarrow> Some []
      | Some components \<Rightarrow>
          collect (\<lambda>message.
                     let rawPayload = (case rawMessage rawSpec (m_id message) of
                                         None \<Rightarrow> None | Some rm \<Rightarrow> rm_payload rm);
                         rawHeaders = (case rawMessage rawSpec (m_id message) of
                                         None \<Rightarrow> None | Some rm \<Rightarrow> rm_headers rm)
                     in do {
                       payloadSchema \<leftarrow> convertSchemaToObject stack (m_payload message) rawPayload;
                       headersSchema \<leftarrow>
                         (case m_headers message of
                            None \<Rightarrow> Some None
                          | Some headers \<Rightarrow>
                              map_option Some (convertSchemaToObject stack (Some headers) rawHeaders));
                       Some \<lparr> pm_name = m_id message,
                              pm_description = m_description message,
                              pm_payload = payloadSchema,
                              pm_headers = headersSchema \<rparr>
                     })
            (comp_messages components))"

text \<open>
  \<^verbatim>\<open>schemas[schemaId] = this.convertSchemaToObject(schema, rawSchema)\<close> for each schema of the
  collection in turn: of two schemas with one id the second overwrites the first.
\<close>

definition extractSchemas :: "nat \<Rightarrow> RawSpec option \<Rightarrow> Document \<Rightarrow> (string \<times> SchemaObject) list option" where
  "extractSchemas stack rawSpec document =
     (case doc_components document of
        None \<Rightarrow> Some []
      | Some components \<Rightarrow>
          forEach (\<lambda>schemas (schemaId, schema). do {
                     converted \<leftarrow> convertSchemaToObject stack (Some schema) (rawSchema rawSpec schemaId);
                     Some (assign schemaId converted schemas)
                   })
            (comp_schemas components) [])"

definition extractData :: "nat \<Rightarrow> RawSpec option \<Rightarrow> Document \<Rightarrow> ParsedAsyncAPI option" where
  "extractData stack rawSpec document = do {
     channels \<leftarrow> extractChannels stack document;
     messages \<leftarrow> extractAllMessages stack rawSpec document;
     schemas \<leftarrow> extractSchemas stack rawSpec document;
     Some \<lparr> title = info_title document,
            version = info_version document,
            description = info_description document,
            channels = channels,
            messages = messages,
            schemas = schemas \<rparr>
   }"

subsection \<open>readFile and parse\<close>

text \<open>
  The file system and the validating parser are the extractor's collaborators: \<^verbatim>\<open>fs.stat\<close>
  and \<^verbatim>\<open>fs.readFile\<close> fail with an errno code or answer, \<^verbatim>\<open>JSON.parse\<close> throws (\<open>None\<close>)
  or answers, and \<^verbatim>\<open>Parser.parse\<close> answers a document that may be absent together with
  its diagnostics. The engine gives the extraction a call stack of some depth. Every
  \<^verbatim>\<open>throw\<close> of the source is an \<open>Inl\<close> here, and the console is a list of lines returned
  with the result.
\<close>

datatype Errno = ENOENT | EACCES | OtherErrno string

record Stats =
  isFile :: bool
  st_size :: nat

record Diagnostic =
  severity :: nat
  message :: string

record Env =
  resolve :: "string \<Rightarrow> string"
  fs_stat :: "string \<Rightarrow> Errno + Stats"
  fs_readFile :: "string \<Rightarrow> Errno + string"
  json_parse :: "string \<Rightarrow> RawSpec option"
  parser_parse :: "string \<Rightarrow> Document option \<times> Diagnostic list"
  stackDepth :: nat

datatype ParseError =
    FileNotFound string         \<comment> \<open>\<^verbatim>\<open>File not found: ${filePath}\<close>\<close>
  | PermissionDenied string     \<comment> \<open>\<^verbatim>\<open>Permission denied: ${filePath}\<close>\<close>
  | PathIsNotAFile string       \<comment> \<open>\<^verbatim>\<open>Path is not a file: ${filePath}\<close>\<close>
  | FileTooLarge nat            \<comment> \<open>\<^verbatim>\<open>File too large (...MB). Maximum size is 10MB\<close>\<close>
  | Rethrown Errno              \<comment> \<open>any other error of the file system, thrown on as it is\<close>
  | SpecificationErrors         \<comment> \<open>\<^verbatim>\<open>Failed to parse AsyncAPI specification. See errors above.\<close>\<close>
  | NoDocument                  \<comment> \<open>\<^verbatim>\<open>Failed to parse AsyncAPI document\<close>\<close>
  | RangeError                  \<comment> \<open>\<^verbatim>\<open>Maximum call stack size exceeded\<close>, thrown by the engine\<close>

datatype ConsoleLine = Warn string | Error string

definition MAX_FILE_SIZE :: nat where
  "MAX_FILE_SIZE = 10 * 1024 * 1024"

text \<open>
  The \<^verbatim>\<open>catch\<close> of \<^verbatim>\<open>readFile\<close>: an error whose \<^verbatim>\<open>code\<close> is \<^verbatim>\<open>ENOENT\<close> or \<^verbatim>\<open>EACCES\<close> gets its
  own message; the two errors thrown inside the \<^verbatim>\<open>try\<close> carry no code and pass through.
\<close>

definition catchErrno :: "string \<Rightarrow> Errno \<Rightarrow> ParseError" where
  "catchErrno filePath e =
     (case e of ENOENT \<Rightarrow> FileNotFound filePath
      | EACCES \<Rightarrow> PermissionDenied filePath
      | OtherErrno c \<Rightarrow> Rethrown (OtherErrno c))"

definition readFile :: "Env \<Rightarrow> string \<Rightarrow> ParseError + string" where
  "readFile env filePath =
     (let resolvedPath = resolve env filePath in
      case fs_stat env resolvedPath of
        Inl e \<Rightarrow> Inl (catchErrno filePath e)
      | Inr stats \<Rightarrow>
          if \<not> isFile stats then Inl (PathIsNotAFile filePath)
          else if st_size stats > MAX_FILE_SIZE then Inl (FileTooLarge (st_size stats))
          else (case fs_readFile env resolvedPath of
                  Inl e \<Rightarrow> Inl (catchErrno filePath e)
                | Inr content \<Rightarrow> Inr content))"

definition errorsOf :: "Diagnostic list \<Rightarrow> Diagnostic list" where
  "errorsOf diagnostics = filter (\<lambda>d. severity d = 0) diagnostics"

definition warningsOf :: "Diagnostic list \<Rightarrow> Diagnostic list" where
  "warningsOf diagnostics = filter (\<lambda>d. severity d = 1) diagnostics"

text \<open>
  The console lines of \<^verbatim>\<open>parse\<close>: the warnings' header and one line for each, then the
  errors' header and one line for each. The headers carry the count.
\<close>

definition warnLines :: "Diagnostic list \<Rightarrow> ConsoleLine list" where
  "warnLines ws = (if ws = [] then [] else Warn ''AsyncAPI warnings'' # map (\<lambda>w. Warn (message w)) ws)"

definition errorLines :: "Diagnostic list \<Rightarrow> ConsoleLine list" where
  "errorLines es = (if es = [] then [] else Error ''AsyncAPI errors'' # map (\<lambda>e. Error (message e)) es)"

definition parse :: "Env \<Rightarrow> string \<Rightarrow> ConsoleLine list \<times> (ParseError + ParsedAsyncAPI)" where
  "parse env filePath =
     (case readFile env filePath of
        Inl e \<Rightarrow> ([], Inl e)
      | Inr content \<Rightarrow>
          (let rawSpec = json_parse env content;
               (document, diagnostics) = parser_parse env content;
               errors = errorsOf diagnostics;
               warnings = warningsOf diagnostics
           in if errors \<noteq> [] then (warnLines warnings @ errorLines errors, Inl SpecificationErrors)
              else (case document of
                      None \<Rightarrow> (warnLines warnings, Inl NoDocument)
                    | Some d \<Rightarrow>
                        (warnLines warnings,
                         case extractData (stackDepth env) rawSpec d of
                           None \<Rightarrow> Inl RangeError
                         | Some data \<Rightarrow> Inr data))))"


section \<open>The Type Compiler (src/generator/typescript-generator.ts)\<close>

text \<open>
  The generator's source file is not among the repository's files at hand: only its
  tests, its callers and the review notes quoting fragments of it are. The definitions of
  this section are therefore modelled from the specification (section 4.2), with the
  tests' expected output fixing the concrete syntax.
\<close>

subsection \<open>Characters and identifiers\<close>

definition lowers :: string where "lowers = ''abcdefghijklmnopqrstuvwxyz''"
definition uppers :: string where "uppers = ''ABCDEFGHIJKLMNOPQRSTUVWXYZ''"
definition digits :: string where "digits = ''0123456789''"

definition isDigit :: "char \<Rightarrow> bool" where
  "isDigit c = (c \<in> set digits)"

definition isLetter :: "char \<Rightarrow> bool" where
  "isLetter c = (c \<in> set lowers \<or> c \<in> set uppers)"

definition isAlnum :: "char \<Rightarrow> bool" where
  "isAlnum c = (isLetter c \<or> isDigit c)"

definition toUpper :: "char \<Rightarrow> char" where
  "toUpper c = (case map_of (zip lowers uppers) c of Some u \<Rightarrow> u | None \<Rightarrow> c)"

definition toLower :: "char \<Rightarrow> char" where
  "toLower c = (case map_of (zip uppers lowers) c of Some l \<Rightarrow> l | None \<Rightarrow> c)"

text \<open>
  Modelled from the spec: PascalCase of an arbitrary key, "strip/convert non-alphanumeric
  separators into word boundaries, uppercase each boundary-adjacent letter". The flag says
  that the next character starts a word.
\<close>

fun pascalFrom :: "bool \<Rightarrow> string \<Rightarrow> string" where
  "pascalFrom boundary [] = []"
| "pascalFrom boundary (c # cs) =
     (if isAlnum c then (if boundary then toUpper c else c) # pascalFrom False cs
      else pascalFrom True cs)"

definition toPascalCase :: "string \<Rightarrow> string" where
  "toPascalCase key = pascalFrom True key"

text \<open>
  Modelled from the spec: the reserved keywords of the output language that a declared
  name must not collide with. The review note's list (\<^verbatim>\<open>interface\<close>, \<^verbatim>\<open>type\<close>, \<^verbatim>\<open>class\<close>,
  \<^verbatim>\<open>const\<close>, \<^verbatim>\<open>let\<close>, \<^verbatim>\<open>var\<close>) with the other declaration keywords; the collision is
  looked for without regard to case, as the example \<^verbatim>\<open>interface\<close> to \<^verbatim>\<open>Interface_\<close> needs.
\<close>

definition reservedWords :: "string list" where
  "reservedWords = [''interface'', ''type'', ''class'', ''const'', ''let'', ''var'',
                    ''enum'', ''function'', ''namespace'', ''module'', ''export'', ''import'']"

text \<open>
  Modelled from the spec: identifier sanitation, "prefix with an underscore if the result
  starts with a digit, and suffix with an underscore if the result collides with a
  reserved keyword".
\<close>

definition sanitizeIdentifier :: "string \<Rightarrow> string" where
  "sanitizeIdentifier key =
     (let pascal = toPascalCase key;
          prefixed = (case pascal of
                        [] \<Rightarrow> []
                      | c # _ \<Rightarrow> if isDigit c then CHR ''_'' # pascal else pascal)
      in if map toLower prefixed \<in> set reservedWords then prefixed @ ''_'' else prefixed)"

section \<open>Vocabulary of the properties, and example documents\<close>

text \<open>The operation's first listed channel has this id.\<close>

definition firstChannelIs :: "string \<Rightarrow> Operation \<Rightarrow> bool" where
  "firstChannelIs channelId operation =
     (case o_channels operation of [] \<Rightarrow> False | channel # _ \<Rightarrow> c_id channel = channelId)"

text \<open>The raw tree at the payload of a message written under a channel.\<close>

definition rawChannelPayload :: "RawSpec \<Rightarrow> string \<Rightarrow> string \<Rightarrow> RawSchema option" where
  "rawChannelPayload raw channelId messageId =
     (case raw_channels raw of
        None \<Rightarrow> None
      | Some cs \<Rightarrow>
          (case map_of cs channelId of
             None \<Rightarrow> None
           | Some ms \<Rightarrow> (case map_of ms messageId of None \<Rightarrow> None | Some rm \<Rightarrow> rm_payload rm)))"

text \<open>A raw node that is an object with the one key \<^verbatim>\<open>$ref\<close>.\<close>

definition rawRefOnly :: "string \<Rightarrow> RawSchema" where
  "rawRefOnly r = RawSchema (Some r) None None None None None None"

definition rawPlain :: "(string \<times> RawSchema) list \<Rightarrow> RawSchema" where
  "rawPlain ps = RawSchema None (if ps = [] then None else Some ps) None None None None None"

definition stringSchema :: Schema where
  "stringSchema = Schema (Some ''string'') None None None None None None None None None None None"

definition orderSchema :: Schema where
  "orderSchema =
     Schema (Some ''object'') None None (Some [(''id'', stringSchema)]) None (Some [''id''])
       None None None None None None"

text \<open>
  A JSON document that writes the message \<^verbatim>\<open>created\<close> twice, in place under the channel
  \<^verbatim>\<open>orders\<close> and under \<^verbatim>\<open>components.messages\<close>, the payload being
  \<^verbatim>\<open>{ "$ref": "#/components/schemas/Order" }\<close> both times: the validated view of it, in
  which the payload is the schema the reference was resolved to, and the raw tree.
\<close>

definition createdMessage :: Message where
  "createdMessage =
     \<lparr> m_id = ''created'', m_description = None, m_payload = Some orderSchema, m_headers = None \<rparr>"

definition ordersChannel :: Channel where
  "ordersChannel =
     \<lparr> c_id = ''orders'', c_address = Some ''orders/events'', c_description = None,
       c_messages = [createdMessage] \<rparr>"

definition usersChannel :: Channel where
  "usersChannel =
     \<lparr> c_id = ''users'', c_address = Some ''users/events'', c_description = None, c_messages = [] \<rparr>"

definition publishCreated :: Operation where
  "publishCreated =
     \<lparr> o_channels = [ordersChannel], o_action = ''send'', o_messages = [createdMessage],
       o_description = None \<rparr>"

text \<open>An operation that lists \<^verbatim>\<open>orders\<close> second.\<close>

definition auditCreated :: Operation where
  "auditCreated =
     \<lparr> o_channels = [usersChannel, ordersChannel], o_action = ''send'',
       o_messages = [createdMessage], o_description = None \<rparr>"

definition ordersDocument :: Document where
  "ordersDocument =
     \<lparr> info_title = ''Orders'', info_version = ''1.0.0'', info_description = None,
       doc_channels = [ordersChannel, usersChannel],
       doc_operations = [publishCreated, auditCreated],
       doc_components = Some \<lparr> comp_messages = [createdMessage],
                               comp_schemas = [(''Order'', orderSchema)] \<rparr> \<rparr>"

definition ordersRaw :: RawSpec where
  "ordersRaw =
     \<lparr> raw_channels =
         Some [(''orders'',
                [(''created'',
                  \<lparr> rm_payload = Some (rawRefOnly ''#/components/schemas/Order''),
                    rm_headers = None \<rparr>)]),
               (''users'', [])],
       raw_messages =
         Some [(''created'',
                \<lparr> rm_payload = Some (rawRefOnly ''#/components/schemas/Order''),
                  rm_headers = None \<rparr>)],
       raw_schemas = Some [(''Order'', rawPlain [(''id'', rawPlain [])])] \<rparr>"

text \<open>
  A file system and a parser that answer the same to every path and content, and a call
  stack with room for sixteen nested conversions.
\<close>

definition envWith ::
  "(Errno + Stats) \<Rightarrow> (Errno + string) \<Rightarrow> Document option \<times> Diagnostic list \<Rightarrow> Env" where
  "envWith statResult readResult parsed =
     \<lparr> resolve = (\<lambda>p. p), fs_stat = (\<lambda>_. statResult), fs_readFile = (\<lambda>_. readResult),
       json_parse = (\<lambda>_. None), parser_parse = (\<lambda>_. parsed), stackDepth = 16 \<rparr>"

definition smallFile :: Stats where
  "smallFile = \<lparr> isFile = True, st_size = 2048 \<rparr>"



text \<open>
  The validated view of a schema that refers to itself,
  \<^verbatim>\<open>Node: { type: object, properties: { next: { $ref: '#/components/schemas/Node' } } }\<close>:
  the property \<^verbatim>\<open>next\<close> of the schema is the schema. The raw tree of it is finite; a
  document that sends a message with this payload on a channel.
\<close>

primcorec nodeSchema :: "unit \<Rightarrow> Schema" where
  "nodeSchema u =
     Schema (Some ''object'') None None
       (map_option (map (map_prod id nodeSchema)) (Some [(''next'', u)]))
       None None None None None None None None"

definition nodeRaw :: RawSchema where
  "nodeRaw = rawPlain [(''next'', rawRefOnly ''#/components/schemas/Node'')]"

definition nodeDocument :: Document where
  "nodeDocument =
     \<lparr> info_title = ''Nodes'', info_version = ''1.0.0'', info_description = None,
       doc_channels =
         [\<lparr> c_id = ''nodes'', c_address = Some ''nodes'', c_description = None,
            c_messages = [\<lparr> m_id = ''added'', m_description = None,
                            m_payload = Some (nodeSchema ()), m_headers = None \<rparr>] \<rparr>],
       doc_operations = [],
       doc_components = Some \<lparr> comp_messages = [], comp_schemas = [(''Node'', nodeSchema ())] \<rparr> \<rparr>"
section \<open>Properties of the extractor\<close>

subsection \<open>Loops that may throw\<close>

lemma collect_Some: "collect f xs = Some ys \<longleftrightarrow> map f xs = map Some ys"
proof (induction xs arbitrary: ys)
  case Nil
  then show ?case by auto
next
  case (Cons x xs)
  show ?case
  proof (cases ys)
    case Nil
    then show ?thesis by (auto split: Option.bind_splits)
  next
    case (Cons y ys')
    with Cons.IH [of ys'] show ?thesis
      by (cases "f x"; cases "collect f xs") auto
  qed
qed

lemma collect_None: "collect f xs = None \<longleftrightarrow> (\<exists>x \<in> set xs. f x = None)"
  by (induction xs) (auto split: Option.bind_splits)

lemma forEach_append:
  "forEach body (xs @ ys) s = Option.bind (forEach body xs s) (forEach body ys)"
  by (induction xs arbitrary: s) (auto split: Option.bind_splits)

subsection \<open>Operations of a channel\<close>

lemma addOperation_skip:
  "\<not> firstChannelIs cid operation \<Longrightarrow> addOperation stack cid acc operation = Some acc"
  by (auto simp: addOperation_def firstChannelIs_def split: list.splits)

lemma forEach_skip:
  "\<not> firstChannelIs cid operation \<Longrightarrow>
   forEach (addOperation stack cid) (operation # ops) = forEach (addOperation stack cid) ops"
  by (rule ext) (simp add: addOperation_skip)

lemma addOperation_first:
  "firstChannelIs cid operation \<Longrightarrow>
   addOperation stack cid acc operation =
     (case mkOperation stack cid operation of
        None \<Rightarrow> None
      | Some op \<Rightarrow>
          Some (if o_action operation = ''send'' then acc\<lparr>send := send acc @ [op]\<rparr>
                else if o_action operation = ''receive'' then acc\<lparr>receive := receive acc @ [op]\<rparr>
                else acc))"
  by (auto simp: addOperation_def firstChannelIs_def split: list.splits Option.bind_splits)

lemma forEach_addOperation:
  "forEach (addOperation stack cid) ops acc = Some r \<Longrightarrow>
     map Some (send r) = map Some (send acc) @ map (mkOperation stack cid)
       (filter (\<lambda>operation. firstChannelIs cid operation \<and> o_action operation = ''send'') ops)
   \<and> map Some (receive r) = map Some (receive acc) @ map (mkOperation stack cid)
       (filter (\<lambda>operation. firstChannelIs cid operation \<and> o_action operation = ''receive'') ops)"
proof (induction ops arbitrary: acc)
  case Nil
  then show ?case by simp
next
  case (Cons operation ops)
  show ?case
  proof (cases "firstChannelIs cid operation")
    case False
    with Cons.prems have "forEach (addOperation stack cid) ops acc = Some r"
      by (simp add: addOperation_skip)
    from Cons.IH [OF this] False show ?thesis by simp
  next
    case True
    from Cons.prems obtain acc' where
      step: "addOperation stack cid acc operation = Some acc'"
      and rest: "forEach (addOperation stack cid) ops acc' = Some r"
      by (auto split: Option.bind_splits)
    from step True obtain op where
      op: "mkOperation stack cid operation = Some op"
      and acc': "acc' = (if o_action operation = ''send'' then acc\<lparr>send := send acc @ [op]\<rparr>
                else if o_action operation = ''receive'' then acc\<lparr>receive := receive acc @ [op]\<rparr>
                else acc)"
      by (auto simp: addOperation_first split: option.splits)
    from Cons.IH [OF rest] True op acc' show ?thesis by auto
  qed
qed

lemma forEach_addOperation_None:
  "forEach (addOperation stack cid) ops acc = None \<longleftrightarrow>
     (\<exists>operation \<in> set ops. firstChannelIs cid operation \<and> mkOperation stack cid operation = None)"
proof (induction ops arbitrary: acc)
  case Nil
  then show ?case by simp
next
  case (Cons operation ops)
  show ?case
  proof (cases "firstChannelIs cid operation")
    case False
    with Cons.IH show ?thesis by (auto simp: addOperation_skip)
  next
    case True
    show ?thesis
    proof (cases "mkOperation stack cid operation")
      case None
      with True show ?thesis by (simp add: addOperation_first)
    next
      case (Some op)
      with True Cons.IH show ?thesis by (auto simp: addOperation_first)
    qed
  qed
qed

text \<open>
  Claim C10. For every channel and every operation of the parsed document, the operation is
  in the channel's send or receive list exactly when its first listed channel has the
  channel's id (and its action is that direction); an operation whose first listed channel
  is another one, also when it lists the channel further on, leaves the channel's
  operations as they are without it, and its messages are not even read. The extraction
  of the channel's operations fails only when the conversion of an operation that it
  attributes to the channel fails. The direction union types are made of these two lists.
\<close>

theorem operations_first_channel_only:
  "(extractOperationsFromChannel stack document channelId = Some operations \<longrightarrow>
      map Some (send operations) =
        map (mkOperation stack channelId)
          (filter (\<lambda>operation. firstChannelIs channelId operation \<and> o_action operation = ''send'')
                  (doc_operations document))
      \<and> map Some (receive operations) =
        map (mkOperation stack channelId)
          (filter (\<lambda>operation. firstChannelIs channelId operation \<and> o_action operation = ''receive'')
                  (doc_operations document)))
   \<and> (extractOperationsFromChannel stack document channelId = None \<longleftrightarrow>
        (\<exists>operation \<in> set (doc_operations document).
           firstChannelIs channelId operation \<and> mkOperation stack channelId operation = None))
   \<and> (\<not> firstChannelIs channelId operation \<longrightarrow>
        extractOperationsFromChannel stack (document\<lparr>doc_operations := before @ operation # after\<rparr>) channelId
          = extractOperationsFromChannel stack (document\<lparr>doc_operations := before @ after\<rparr>) channelId)"
proof (intro conjI impI)
  assume run: "extractOperationsFromChannel stack document channelId = Some operations"
  then have "forEach (addOperation stack channelId) (doc_operations document) \<lparr>send = [], receive = []\<rparr>
               = Some operations"
    by (simp add: extractOperationsFromChannel_def)
  from forEach_addOperation [OF this]
  show "map Some (send operations) =
        map (mkOperation stack channelId)
          (filter (\<lambda>operation. firstChannelIs channelId operation \<and> o_action operation = ''send'')
                  (doc_operations document))"
    and "map Some (receive operations) =
        map (mkOperation stack channelId)
          (filter (\<lambda>operation. firstChannelIs channelId operation \<and> o_action operation = ''receive'')
                  (doc_operations document))"
    by simp_all
next
  show "extractOperationsFromChannel stack document channelId = None \<longleftrightarrow>
        (\<exists>operation \<in> set (doc_operations document).
           firstChannelIs channelId operation \<and> mkOperation stack channelId operation = None)"
    by (simp add: extractOperationsFromChannel_def forEach_addOperation_None)
next
  assume "\<not> firstChannelIs channelId operation"
  then show "extractOperationsFromChannel stack (document\<lparr>doc_operations := before @ operation # after\<rparr>) channelId
          = extractOperationsFromChannel stack (document\<lparr>doc_operations := before @ after\<rparr>) channelId"
    by (simp add: extractOperationsFromChannel_def forEach_append forEach_skip)
qed

theorem operations_first_channel_only_witness:
  "c_id (o_channels auditCreated ! 1) = ''orders''
   \<and> \<not> firstChannelIs ''orders'' auditCreated
   \<and> extractOperationsFromChannel 16 ordersDocument ''orders'' \<noteq> None
   \<and> map Some (send (the (extractOperationsFromChannel 16 ordersDocument ''orders'')))
       = [mkOperation 16 ''orders'' publishCreated]
   \<and> receive (the (extractOperationsFromChannel 16 ordersDocument ''orders'')) = []
   \<and> extractOperationsFromChannel 16 ordersDocument ''orders''
       = extractOperationsFromChannel 16 (ordersDocument\<lparr>doc_operations := [publishCreated]\<rparr>) ''orders''"
proof -
  have second: "c_id (o_channels auditCreated ! 1) = ''orders''"
    by (simp add: auditCreated_def ordersChannel_def)
  have notFirst: "\<not> firstChannelIs ''orders'' auditCreated"
    by (simp add: firstChannelIs_def auditCreated_def usersChannel_def)
  have first: "firstChannelIs ''orders'' publishCreated"
    by (simp add: firstChannelIs_def publishCreated_def ordersChannel_def)
  have action: "o_action publishCreated = ''send''"
    by (simp add: publishCreated_def)
  have ops: "doc_operations ordersDocument = [publishCreated, auditCreated]"
    by (simp add: ordersDocument_def)
  have doc: "ordersDocument\<lparr>doc_operations := [publishCreated, auditCreated]\<rparr> = ordersDocument"
    by (simp add: ordersDocument_def)
  have returns: "extractOperationsFromChannel 16 ordersDocument ''orders'' \<noteq> None"
    by code_simp
  then obtain operations where
    run: "extractOperationsFromChannel 16 ordersDocument ''orders'' = Some operations"
    by auto
  note inst = operations_first_channel_only
         [of 16 ordersDocument "''orders''" operations auditCreated "[publishCreated]" "[]"]
  from inst run
  have s: "map Some (send (the (extractOperationsFromChannel 16 ordersDocument ''orders'')))
             = [mkOperation 16 ''orders'' publishCreated]"
    by (simp add: ops notFirst first action)
  from inst run
  have r: "receive (the (extractOperationsFromChannel 16 ordersDocument ''orders'')) = []"
    by (simp add: ops notFirst first action)
  from inst notFirst
  have e: "extractOperationsFromChannel 16 ordersDocument ''orders''
       = extractOperationsFromChannel 16 (ordersDocument\<lparr>doc_operations := [publishCreated]\<rparr>) ''orders''"
    by (simp add: doc)
  from second notFirst returns s r e show ?thesis by blast
qed

subsection \<open>References of the source document\<close>

text \<open>
  Claim C2, at a document where it fails. The document writes the payload of the message
  \<^verbatim>\<open>created\<close> as \<^verbatim>\<open>{ "$ref": "#/components/schemas/Order" }\<close>, under the channel
  \<^verbatim>\<open>orders\<close> and under \<^verbatim>\<open>components.messages\<close>. \<^verbatim>\<open>extractMessagesFromChannel\<close> converts the
  payload without the raw tree, and the node it produces for the channel's message is the
  schema the validating parser resolved the reference to, with \<^verbatim>\<open>type\<close>, \<^verbatim>\<open>properties\<close> and
  \<^verbatim>\<open>required\<close> and no \<^verbatim>\<open>$ref\<close>; \<^verbatim>\<open>extractAllMessages\<close>, which passes the raw node, produces
  \<^verbatim>\<open>{ $ref }\<close> for the same payload under \<^verbatim>\<open>components.messages\<close>.
\<close>

theorem channel_payload_ref_lost:
  "rawChannelPayload ordersRaw ''orders'' ''created'' = Some (rawRefOnly ''#/components/schemas/Order'')
   \<and> map_option (\<lambda>data. map (\<lambda>c. map pm_payload (pc_messages c)) (channels data))
         (extractData 16 (Some ordersRaw) ordersDocument)
       = Some [[SchemaObject (Some ''object'')
                  (Some [(''id'', SchemaObject (Some ''string'') None None None None None None None
                                   None None None None)])
                  None (Some [''id'']) None None None None None None None None],
               []]
   \<and> rawMessage (Some ordersRaw) ''created''
       = Some \<lparr> rm_payload = Some (rawRefOnly ''#/components/schemas/Order''), rm_headers = None \<rparr>
   \<and> map_option (\<lambda>data. map pm_payload (messages data))
         (extractData 16 (Some ordersRaw) ordersDocument)
       = Some [refOnly ''#/components/schemas/Order'']"
proof -
  have a: "rawChannelPayload ordersRaw ''orders'' ''created'' = Some (rawRefOnly ''#/components/schemas/Order'')"
    by (simp add: rawChannelPayload_def ordersRaw_def)
  have b: "map_option (\<lambda>data. map (\<lambda>c. map pm_payload (pc_messages c)) (channels data))
         (extractData 16 (Some ordersRaw) ordersDocument)
       = Some [[SchemaObject (Some ''object'')
                  (Some [(''id'', SchemaObject (Some ''string'') None None None None None None None
                                   None None None None)])
                  None (Some [''id'']) None None None None None None None None],
               []]"
    by code_simp
  have c: "rawMessage (Some ordersRaw) ''created''
       = Some \<lparr> rm_payload = Some (rawRefOnly ''#/components/schemas/Order''), rm_headers = None \<rparr>"
    by (simp add: rawMessage_def ordersRaw_def)
  have d: "map_option (\<lambda>data. map pm_payload (messages data))
         (extractData 16 (Some ordersRaw) ordersDocument)
       = Some [refOnly ''#/components/schemas/Order'']"
    by code_simp
  from a b c d show ?thesis by simp
qed

subsection \<open>Schemas that refer to themselves\<close>

text \<open>
  Without the raw tree the conversion of a schema that refers to itself uses up every
  stack; with it, the \<^verbatim>\<open>$ref\<close> of the raw tree ends the descent.
\<close>

lemma nodeSchema_properties [simp]:
  "d_properties (nodeSchema u) = Some [(''next'', nodeSchema u)]"
  by simp

lemma nodeSchema_overflows:
  "convertSchemaToObject stack (Some (nodeSchema u)) None = None"
proof (induction stack)
  case 0
  then show ?case by simp
next
  case (Suc stack)
  then show ?case
    by (simp add: rawRef_def rawProp_def nonEmpty_def)
qed

lemma nodeSchema_stopped:
  "convertSchemaToObject 2 (Some (nodeSchema ())) (Some nodeRaw) =
     Some (SchemaObject (Some ''object'')
             (Some [(''next'', refOnly ''#/components/schemas/Node'')])
             None None None None None None None None None None)"
  by (simp add: numeral_2_eq_2 rawRef_def rawProp_def rawField_def nonEmpty_def truthy_def
        nodeRaw_def rawPlain_def rawRefOnly_def)

lemma nodeDocument_overflows:
  "extractData stack rawSpec nodeDocument = None"
proof -
  have "convertMessage stack \<lparr> m_id = ''added'', m_description = None,
                            m_payload = Some (nodeSchema ()), m_headers = None \<rparr> = None"
    by (simp add: convertMessage_def nodeSchema_overflows)
  then have "extractChannels stack nodeDocument = None"
    by (simp add: extractChannels_def nodeDocument_def extractMessagesFromChannel_def)
  then show ?thesis by (simp add: extractData_def)
qed

subsection \<open>Failures of parse\<close>

lemma readFile_stat_error:
  "fs_stat env (resolve env filePath) = Inl e \<Longrightarrow> readFile env filePath = Inl (catchErrno filePath e)"
  by (simp add: readFile_def Let_def)

lemma parse_readFile_error:
  "readFile env filePath = Inl e \<Longrightarrow> parse env filePath = ([], Inl e)"
  by (simp add: parse_def)

lemma readFile_ignores_parser [simp]:
  "readFile (env\<lparr>json_parse := jp, parser_parse := pp\<rparr>) filePath = readFile env filePath"
  by (simp add: readFile_def Let_def split: sum.splits)

lemma readFile_ignores_diagnostics [simp]:
  "readFile (env\<lparr>parser_parse := pp\<rparr>) filePath = readFile env filePath"
  by (simp add: readFile_def Let_def split: sum.splits)

lemma parse_silent:
  "readFile env filePath = Inr content \<Longrightarrow>
   parse (env\<lparr>parser_parse := \<lambda>_. (Some d, [])\<rparr>) filePath =
     ([], case extractData (stackDepth env) (json_parse env content) d of
            None \<Rightarrow> Inl RangeError
          | Some data \<Rightarrow> Inr data)"
  by (simp add: parse_def errorsOf_def warningsOf_def warnLines_def)

text \<open>
  Claim C7. For every input path, \<^verbatim>\<open>parse\<close> fails with an error of its own for each problem
  of access (the file is absent, permission is denied, the path is not a regular file, the
  file is larger than the ceiling), whatever the parsers would answer: they are not asked.
  For a content that was read, diagnostics of severity 0 make the one failure
  \<open>SpecificationErrors\<close>, each of them written to the console and no data returned;
  without them, the warnings are written to the console and the answer is what the
  extraction of the document gives, the same as when the parser had reported nothing: the
  document's data, or the engine's \<^verbatim>\<open>RangeError\<close> when the extraction runs out of stack.
\<close>

theorem parse_failure_modes:
  fixes env :: Env and jp pp
  defines "env' \<equiv> env\<lparr>json_parse := jp, parser_parse := pp\<rparr>"
  shows
  "(fs_stat env (resolve env filePath) = Inl ENOENT \<longrightarrow>
      parse env' filePath = ([], Inl (FileNotFound filePath)))
   \<and> (fs_stat env (resolve env filePath) = Inl EACCES \<longrightarrow>
      parse env' filePath = ([], Inl (PermissionDenied filePath)))
   \<and> (fs_stat env (resolve env filePath) = Inr stats \<and> \<not> isFile stats \<longrightarrow>
      parse env' filePath = ([], Inl (PathIsNotAFile filePath)))
   \<and> (fs_stat env (resolve env filePath) = Inr stats \<and> isFile stats \<and> MAX_FILE_SIZE < st_size stats \<longrightarrow>
      parse env' filePath = ([], Inl (FileTooLarge (st_size stats))))
   \<and> (fs_stat env (resolve env filePath) = Inr stats \<and> isFile stats \<and> st_size stats \<le> MAX_FILE_SIZE
        \<and> fs_readFile env (resolve env filePath) = Inl ENOENT \<longrightarrow>
      parse env' filePath = ([], Inl (FileNotFound filePath)))
   \<and> (fs_stat env (resolve env filePath) = Inr stats \<and> isFile stats \<and> st_size stats \<le> MAX_FILE_SIZE
        \<and> fs_readFile env (resolve env filePath) = Inl EACCES \<longrightarrow>
      parse env' filePath = ([], Inl (PermissionDenied filePath)))
   \<and> distinct [FileNotFound filePath, PermissionDenied filePath, PathIsNotAFile filePath,
                FileTooLarge n, SpecificationErrors, NoDocument]
   \<and> (readFile env filePath = Inr content \<and> parser_parse env content = (document, diagnostics)
        \<and> errorsOf diagnostics \<noteq> [] \<longrightarrow>
      parse env filePath =
        (warnLines (warningsOf diagnostics) @ errorLines (errorsOf diagnostics), Inl SpecificationErrors)
      \<and> (\<forall>d \<in> set diagnostics. severity d = 0 \<longrightarrow> Error (message d) \<in> set (fst (parse env filePath))))
   \<and> (readFile env filePath = Inr content \<and> parser_parse env content = (Some d, diagnostics)
        \<and> errorsOf diagnostics = [] \<longrightarrow>
      parse env filePath =
        (warnLines (warningsOf diagnostics),
         case extractData (stackDepth env) (json_parse env content) d of
           None \<Rightarrow> Inl RangeError
         | Some data \<Rightarrow> Inr data)
      \<and> (\<forall>w \<in> set diagnostics. severity w = 1 \<longrightarrow> Warn (message w) \<in> set (fst (parse env filePath)))
      \<and> snd (parse env filePath) = snd (parse (env\<lparr>parser_parse := \<lambda>_. (Some d, [])\<rparr>) filePath))"
proof -
  have stat_errors:
    "fs_stat env (resolve env filePath) = Inl e \<Longrightarrow> parse env' filePath = ([], Inl (catchErrno filePath e))" for e
    by (simp add: env'_def parse_readFile_error readFile_stat_error)
  have a: "fs_stat env (resolve env filePath) = Inl ENOENT \<longrightarrow>
      parse env' filePath = ([], Inl (FileNotFound filePath))"
    using stat_errors [of ENOENT] by (simp add: catchErrno_def)
  have b: "fs_stat env (resolve env filePath) = Inl EACCES \<longrightarrow>
      parse env' filePath = ([], Inl (PermissionDenied filePath))"
    using stat_errors [of EACCES] by (simp add: catchErrno_def)
  have c: "fs_stat env (resolve env filePath) = Inr stats \<and> \<not> isFile stats \<longrightarrow>
      parse env' filePath = ([], Inl (PathIsNotAFile filePath))"
    by (simp add: env'_def parse_readFile_error readFile_def Let_def)
  have d: "fs_stat env (resolve env filePath) = Inr stats \<and> isFile stats \<and> MAX_FILE_SIZE < st_size stats \<longrightarrow>
      parse env' filePath = ([], Inl (FileTooLarge (st_size stats)))"
    by (simp add: env'_def parse_readFile_error readFile_def Let_def)
  have e: "fs_stat env (resolve env filePath) = Inr stats \<and> isFile stats \<and> st_size stats \<le> MAX_FILE_SIZE
        \<and> fs_readFile env (resolve env filePath) = Inl ENOENT \<longrightarrow>
      parse env' filePath = ([], Inl (FileNotFound filePath))"
    by (simp add: env'_def parse_readFile_error readFile_def Let_def catchErrno_def)
  have f: "fs_stat env (resolve env filePath) = Inr stats \<and> isFile stats \<and> st_size stats \<le> MAX_FILE_SIZE
        \<and> fs_readFile env (resolve env filePath) = Inl EACCES \<longrightarrow>
      parse env' filePath = ([], Inl (PermissionDenied filePath))"
    by (simp add: env'_def parse_readFile_error readFile_def Let_def catchErrno_def)
  have g: "distinct [FileNotFound filePath, PermissionDenied filePath, PathIsNotAFile filePath,
                FileTooLarge n, SpecificationErrors, NoDocument]"
    by simp
  have h: "readFile env filePath = Inr content \<and> parser_parse env content = (document, diagnostics)
        \<and> errorsOf diagnostics \<noteq> [] \<longrightarrow>
      parse env filePath =
        (warnLines (warningsOf diagnostics) @ errorLines (errorsOf diagnostics), Inl SpecificationErrors)
      \<and> (\<forall>d \<in> set diagnostics. severity d = 0 \<longrightarrow> Error (message d) \<in> set (fst (parse env filePath)))"
    by (auto simp: parse_def errorLines_def errorsOf_def filter_empty_conv)
  have i: "readFile env filePath = Inr content \<and> parser_parse env content = (Some d, diagnostics)
        \<and> errorsOf diagnostics = [] \<longrightarrow>
      parse env filePath =
        (warnLines (warningsOf diagnostics),
         case extractData (stackDepth env) (json_parse env content) d of
           None \<Rightarrow> Inl RangeError
         | Some data \<Rightarrow> Inr data)
      \<and> (\<forall>w \<in> set diagnostics. severity w = 1 \<longrightarrow> Warn (message w) \<in> set (fst (parse env filePath)))
      \<and> snd (parse env filePath) = snd (parse (env\<lparr>parser_parse := \<lambda>_. (Some d, [])\<rparr>) filePath)"
  proof (intro impI)
    assume "readFile env filePath = Inr content \<and> parser_parse env content = (Some d, diagnostics)
        \<and> errorsOf diagnostics = []"
    then have rd: "readFile env filePath = Inr content"
      and pp: "parser_parse env content = (Some d, diagnostics)"
      and ne: "errorsOf diagnostics = []"
      by simp_all
    have answer: "parse env filePath =
        (warnLines (warningsOf diagnostics),
         case extractData (stackDepth env) (json_parse env content) d of
           None \<Rightarrow> Inl RangeError
         | Some data \<Rightarrow> Inr data)"
      using rd pp ne by (simp add: parse_def)
    have reported: "\<forall>w \<in> set diagnostics. severity w = 1 \<longrightarrow>
                      Warn (message w) \<in> set (fst (parse env filePath))"
      unfolding answer by (auto simp: warnLines_def warningsOf_def filter_empty_conv)
    have same: "snd (parse env filePath) = snd (parse (env\<lparr>parser_parse := \<lambda>_. (Some d, [])\<rparr>) filePath)"
      unfolding answer parse_silent [OF rd] by simp
    from answer reported same
    show "parse env filePath =
        (warnLines (warningsOf diagnostics),
         case extractData (stackDepth env) (json_parse env content) d of
           None \<Rightarrow> Inl RangeError
         | Some data \<Rightarrow> Inr data)
      \<and> (\<forall>w \<in> set diagnostics. severity w = 1 \<longrightarrow> Warn (message w) \<in> set (fst (parse env filePath)))
      \<and> snd (parse env filePath) = snd (parse (env\<lparr>parser_parse := \<lambda>_. (Some d, [])\<rparr>) filePath)"
      by blast
  qed
  from a b c d e f g h i show ?thesis by blast
qed

theorem parse_failure_modes_witness:
  "parse (envWith (Inl ENOENT) (Inr ''{}'') (None, [])) ''spec.json'' = ([], Inl (FileNotFound ''spec.json''))
   \<and> parse (envWith (Inl EACCES) (Inr ''{}'') (None, [])) ''spec.json'' = ([], Inl (PermissionDenied ''spec.json''))
   \<and> parse (envWith (Inr \<lparr>isFile = False, st_size = 0\<rparr>) (Inr ''{}'') (None, [])) ''spec.json''
       = ([], Inl (PathIsNotAFile ''spec.json''))
   \<and> parse (envWith (Inr \<lparr>isFile = True, st_size = 10485761\<rparr>) (Inr ''{}'') (None, [])) ''spec.json''
       = ([], Inl (FileTooLarge 10485761))
   \<and> parse (envWith (Inr smallFile) (Inl ENOENT) (None, [])) ''spec.json'' = ([], Inl (FileNotFound ''spec.json''))
   \<and> parse (envWith (Inr smallFile) (Inl EACCES) (None, [])) ''spec.json'' = ([], Inl (PermissionDenied ''spec.json''))
   \<and> parse (envWith (Inr smallFile) (Inr ''{}'')
         (Some ordersDocument,
          [\<lparr>severity = 1, message = ''w1''\<rparr>, \<lparr>severity = 0, message = ''e1''\<rparr>,
           \<lparr>severity = 0, message = ''e2''\<rparr>])) ''spec.json''
       = ([Warn ''AsyncAPI warnings'', Warn ''w1'', Error ''AsyncAPI errors'', Error ''e1'', Error ''e2''],
          Inl SpecificationErrors)
   \<and> parse (envWith (Inr smallFile) (Inr ''{}'')
         (Some ordersDocument, [\<lparr>severity = 1, message = ''w1''\<rparr>, \<lparr>severity = 2, message = ''i1''\<rparr>]))
         ''spec.json''
       = ([Warn ''AsyncAPI warnings'', Warn ''w1''],
          case extractData 16 None ordersDocument of None \<Rightarrow> Inl RangeError | Some data \<Rightarrow> Inr data)
   \<and> extractData 16 None ordersDocument \<noteq> None
   \<and> parse (envWith (Inr smallFile) (Inr ''{}'') (Some nodeDocument, [\<lparr>severity = 1, message = ''w1''\<rparr>]))
         ''spec.json''
       = ([Warn ''AsyncAPI warnings'', Warn ''w1''], Inl RangeError)
   \<and> snd (parse (envWith (Inr smallFile) (Inr ''{}'') (Some nodeDocument, [])) ''spec.json'')
       = Inl RangeError"
proof -
  let ?p = "''spec.json''"
  let ?none = "(None, []) :: Document option \<times> Diagnostic list"
  let ?bad = "(Some ordersDocument,
          [\<lparr>severity = 1, message = ''w1''\<rparr>, \<lparr>severity = 0, message = ''e1''\<rparr>,
           \<lparr>severity = 0, message = ''e2''\<rparr>])"
  let ?warned = "(Some ordersDocument, [\<lparr>severity = 1, message = ''w1''\<rparr>, \<lparr>severity = 2, message = ''i1''\<rparr>])"
  have same: "envWith s r p\<lparr>json_parse := json_parse (envWith s r p),
                 parser_parse := parser_parse (envWith s r p)\<rparr> = envWith s r p" for s r p
    by simp
  have rd: "readFile (envWith (Inr smallFile) (Inr ''{}'') p) ?p = Inr ''{}''" for p
    by (simp add: readFile_def envWith_def smallFile_def MAX_FILE_SIZE_def)
  have a: "parse (envWith (Inl ENOENT) (Inr ''{}'') ?none) ?p = ([], Inl (FileNotFound ?p))"
    using parse_failure_modes [where env = "envWith (Inl ENOENT) (Inr ''{}'') ?none" and filePath = ?p
        and jp = "json_parse (envWith (Inl ENOENT) (Inr ''{}'') ?none)"
        and pp = "parser_parse (envWith (Inl ENOENT) (Inr ''{}'') ?none)"]
    unfolding same by (simp add: envWith_def)
  have b: "parse (envWith (Inl EACCES) (Inr ''{}'') ?none) ?p = ([], Inl (PermissionDenied ?p))"
    using parse_failure_modes [where env = "envWith (Inl EACCES) (Inr ''{}'') ?none" and filePath = ?p
        and jp = "json_parse (envWith (Inl EACCES) (Inr ''{}'') ?none)"
        and pp = "parser_parse (envWith (Inl EACCES) (Inr ''{}'') ?none)"]
    unfolding same by (simp add: envWith_def)
  let ?dir = "envWith (Inr \<lparr>isFile = False, st_size = 0\<rparr>) (Inr ''{}'') ?none"
  have c: "parse ?dir ?p = ([], Inl (PathIsNotAFile ?p))"
    using parse_failure_modes [where env = ?dir and filePath = ?p and stats = "\<lparr>isFile = False, st_size = 0\<rparr>"
        and jp = "json_parse ?dir" and pp = "parser_parse ?dir"]
    unfolding same by (simp add: envWith_def)
  let ?big = "envWith (Inr \<lparr>isFile = True, st_size = 10485761\<rparr>) (Inr ''{}'') ?none"
  have d: "parse ?big ?p = ([], Inl (FileTooLarge 10485761))"
    using parse_failure_modes [where env = ?big and filePath = ?p and stats = "\<lparr>isFile = True, st_size = 10485761\<rparr>"
        and jp = "json_parse ?big" and pp = "parser_parse ?big"]
    unfolding same by (simp add: envWith_def MAX_FILE_SIZE_def)
  let ?gone = "envWith (Inr smallFile) (Inl ENOENT) ?none"
  have e: "parse ?gone ?p = ([], Inl (FileNotFound ?p))"
    using parse_failure_modes [where env = ?gone and filePath = ?p and stats = smallFile
        and jp = "json_parse ?gone" and pp = "parser_parse ?gone"]
    unfolding same by (simp add: envWith_def MAX_FILE_SIZE_def smallFile_def)
  let ?locked = "envWith (Inr smallFile) (Inl EACCES) ?none"
  have f: "parse ?locked ?p = ([], Inl (PermissionDenied ?p))"
    using parse_failure_modes [where env = ?locked and filePath = ?p and stats = smallFile
        and jp = "json_parse ?locked" and pp = "parser_parse ?locked"]
    unfolding same by (simp add: envWith_def MAX_FILE_SIZE_def smallFile_def)
  let ?e = "envWith (Inr smallFile) (Inr ''{}'') ?bad"
  have g: "parse ?e ?p
       = ([Warn ''AsyncAPI warnings'', Warn ''w1'', Error ''AsyncAPI errors'', Error ''e1'', Error ''e2''],
          Inl SpecificationErrors)"
    using parse_failure_modes [where env = ?e and filePath = ?p and content = "''{}''"
        and document = "Some ordersDocument" and diagnostics = "snd ?bad"] rd [of ?bad]
    by (simp add: envWith_def errorsOf_def warningsOf_def warnLines_def errorLines_def)
  let ?w = "envWith (Inr smallFile) (Inr ''{}'') ?warned"
  have h: "parse ?w ?p = ([Warn ''AsyncAPI warnings'', Warn ''w1''],
          case extractData 16 None ordersDocument of None \<Rightarrow> Inl RangeError | Some data \<Rightarrow> Inr data)"
    using parse_failure_modes [where env = ?w and filePath = ?p and content = "''{}''"
        and d = ordersDocument and diagnostics = "snd ?warned"] rd [of ?warned]
    by (simp add: envWith_def errorsOf_def warningsOf_def warnLines_def errorLines_def)
  have i: "extractData 16 None ordersDocument \<noteq> None"
    by code_simp
  let ?looping = "(Some nodeDocument, [\<lparr>severity = 1, message = ''w1''\<rparr>])"
  let ?l = "envWith (Inr smallFile) (Inr ''{}'') ?looping"
  have silent: "?l\<lparr>parser_parse := \<lambda>_. (Some nodeDocument, [])\<rparr>
                  = envWith (Inr smallFile) (Inr ''{}'') (Some nodeDocument, [])"
    by (simp add: envWith_def)
  have hyp: "readFile ?l ?p = Inr ''{}'' \<and> parser_parse ?l ''{}'' = (Some nodeDocument, snd ?looping)
               \<and> errorsOf (snd ?looping) = []"
    using rd [of ?looping] by (simp add: envWith_def errorsOf_def)
  note looping = parse_failure_modes [where env = ?l and filePath = ?p and content = "''{}''"
        and d = nodeDocument and diagnostics = "snd ?looping"]
  from looping hyp
  have j0: "parse ?l ?p =
        (warnLines (warningsOf (snd ?looping)),
         case extractData (stackDepth ?l) (json_parse ?l ''{}'') nodeDocument of
           None \<Rightarrow> Inl RangeError
         | Some data \<Rightarrow> Inr data)"
    and k0: "snd (parse ?l ?p) = snd (parse (?l\<lparr>parser_parse := \<lambda>_. (Some nodeDocument, [])\<rparr>) ?p)"
    by blast+
  have j: "parse ?l ?p = ([Warn ''AsyncAPI warnings'', Warn ''w1''], Inl RangeError)"
    unfolding j0 by (simp add: nodeDocument_overflows warnLines_def warningsOf_def)
  have k: "snd (parse (envWith (Inr smallFile) (Inr ''{}'') (Some nodeDocument, [])) ?p) = Inl RangeError"
    using k0 unfolding silent j by simp
  from a b c d e f g h i j k show ?thesis by blast
qed

section \<open>Properties of the Type Compiler\<close>

subsection \<open>Declared names\<close>

lemma pascalFrom_separator:
  "\<not> isAlnum sep \<Longrightarrow> pascalFrom b (xs @ sep # ys) = pascalFrom b xs @ pascalFrom True ys"
  by (induction xs arbitrary: b) auto

lemma toLower_underscore [simp]: "toLower (CHR ''_'') = CHR ''_''"
  by (simp add: toLower_def uppers_def lowers_def)

lemma isDigit_underscore [simp]: "\<not> isDigit (CHR ''_'')"
  by (simp add: isDigit_def digits_def)

lemma reserved_no_underscore_end:
  "w \<in> set reservedWords \<Longrightarrow> w \<noteq> [] \<and> last w \<noteq> CHR ''_'' \<and> hd w \<noteq> CHR ''_''"
  by (auto simp: reservedWords_def)

lemma reserved_not_suffixed: "xs @ ''_'' \<notin> set reservedWords"
  using reserved_no_underscore_end [of "xs @ ''_''"] by auto

lemma reserved_not_prefixed: "CHR ''_'' # xs \<notin> set reservedWords"
  using reserved_no_underscore_end [of "CHR ''_'' # xs"] by auto

lemma sanitize_not_reserved: "map toLower (sanitizeIdentifier key) \<notin> set reservedWords"
  by (auto simp: sanitizeIdentifier_def Let_def reserved_not_suffixed split: list.splits)

lemma sanitize_no_leading_digit:
  "sanitizeIdentifier key \<noteq> [] \<Longrightarrow> \<not> isDigit (hd (sanitizeIdentifier key))"
  by (auto simp: sanitizeIdentifier_def Let_def split: list.splits if_splits)

lemma sanitize_digit_prefix:
  "toPascalCase key = c # rest \<Longrightarrow> isDigit c \<Longrightarrow>
     sanitizeIdentifier key = CHR ''_'' # toPascalCase key"
  by (simp add: sanitizeIdentifier_def Let_def reserved_not_prefixed)

lemma reserved_no_digit_start:
  "w \<in> set reservedWords \<Longrightarrow> \<not> isDigit (hd w)"
  by (auto simp: reservedWords_def isDigit_def digits_def)

lemma lowers_not_digits: "l \<in> set lowers \<Longrightarrow> \<not> isDigit l"
  by (auto simp: lowers_def isDigit_def digits_def)

lemma uppers_not_digits: "u \<in> set uppers \<Longrightarrow> \<not> isDigit u"
  by (auto simp: uppers_def isDigit_def digits_def)

lemma isDigit_toLower: "isDigit (toLower c) = isDigit c"
proof (cases "map_of (zip uppers lowers) c")
  case None
  then show ?thesis by (simp add: toLower_def)
next
  case (Some l)
  then have "l \<in> set lowers" and "c \<in> set uppers"
    by (auto dest!: map_of_SomeD dest: set_zip_rightD set_zip_leftD)
  with Some show ?thesis
    by (simp add: toLower_def lowers_not_digits uppers_not_digits)
qed

lemma sanitize_reserved_suffix:
  assumes "map toLower (toPascalCase key) \<in> set reservedWords"
  shows "sanitizeIdentifier key = toPascalCase key @ ''_''"
proof -
  from assms reserved_no_underscore_end obtain c rest where p: "toPascalCase key = c # rest"
    by (cases "toPascalCase key") auto
  from reserved_no_digit_start [OF assms] p have "\<not> isDigit c"
    by (simp add: isDigit_toLower)
  with p assms show ?thesis
    by (simp add: sanitizeIdentifier_def Let_def)
qed

text \<open>
  Claim C9. Identifier sanitation maps the key \<^verbatim>\<open>user-name\<close> to \<^verbatim>\<open>UserName\<close>, \<^verbatim>\<open>123test\<close> to
  \<^verbatim>\<open>_123test\<close> and \<^verbatim>\<open>interface\<close> to \<^verbatim>\<open>Interface_\<close>: a separator ends a word and the
  letter after it is uppercased, a result that starts with a digit is prefixed with an
  underscore, and a result that collides with a reserved word is suffixed with one; the
  declared name never starts with a digit and is never a reserved word.
\<close>

theorem sanitizeIdentifier_examples:
  "sanitizeIdentifier ''user-name'' = ''UserName''
   \<and> sanitizeIdentifier ''123test'' = ''_123test''
   \<and> sanitizeIdentifier ''interface'' = ''Interface_''
   \<and> (\<not> isAlnum sep \<longrightarrow> toPascalCase (before @ sep # after) = toPascalCase before @ toPascalCase after)
   \<and> (isAlnum c \<longrightarrow> toPascalCase (c # after) = toUpper c # pascalFrom False after)
   \<and> (toPascalCase key = d # rest \<and> isDigit d \<longrightarrow> sanitizeIdentifier key = CHR ''_'' # toPascalCase key)
   \<and> (map toLower (toPascalCase key) \<in> set reservedWords \<longrightarrow>
        sanitizeIdentifier key = toPascalCase key @ ''_'')
   \<and> (sanitizeIdentifier key \<noteq> [] \<longrightarrow> \<not> isDigit (hd (sanitizeIdentifier key)))
   \<and> map toLower (sanitizeIdentifier key) \<notin> set reservedWords"
proof -
  have a: "sanitizeIdentifier ''user-name'' = ''UserName''"
    by code_simp
  have b: "sanitizeIdentifier ''123test'' = ''_123test''"
    by code_simp
  have c: "sanitizeIdentifier ''interface'' = ''Interface_''"
    by code_simp
  show ?thesis
    using a b c pascalFrom_separator [of sep True before after] sanitize_digit_prefix [of key d rest]
      sanitize_reserved_suffix [of key] sanitize_no_leading_digit [of key] sanitize_not_reserved [of key]
    by (simp add: toPascalCase_def)
qed

theorem sanitizeIdentifier_examples_witness:
  "\<not> isAlnum (CHR ''-'') \<and> toPascalCase ''user-name'' = toPascalCase ''user'' @ toPascalCase ''name''
   \<and> isAlnum (CHR ''n'') \<and> toPascalCase ''name'' = ''Name''
   \<and> toPascalCase ''123test'' = ''123test'' \<and> isDigit (CHR ''1'')
   \<and> sanitizeIdentifier ''123test'' = CHR ''_'' # ''123test''
   \<and> map toLower (toPascalCase ''interface'') \<in> set reservedWords
   \<and> sanitizeIdentifier ''interface'' = ''Interface'' @ ''_''
   \<and> \<not> isDigit (hd (sanitizeIdentifier ''123test''))
   \<and> map toLower (sanitizeIdentifier ''interface'') \<notin> set reservedWords"
proof -
  note ev = toPascalCase_def isAlnum_def isLetter_def isDigit_def
          toUpper_def toLower_def lowers_def uppers_def digits_def reservedWords_def
  have sep: "\<not> isAlnum (CHR ''-'')" by (simp add: ev)
  have n: "isAlnum (CHR ''n'')" by (simp add: ev)
  have p1: "toPascalCase ''123test'' = CHR ''1'' # ''23test''" by (simp add: ev)
  have d: "isDigit (CHR ''1'')" by (simp add: ev)
  have r: "map toLower (toPascalCase ''interface'') \<in> set reservedWords" by (simp add: ev)
  have pi: "toPascalCase ''interface'' = ''Interface''" by (simp add: ev)
  have name: "toPascalCase ''name'' = ''Name''" by (simp add: ev)
  have s123: "sanitizeIdentifier ''123test'' \<noteq> []"
    by (simp add: sanitizeIdentifier_def ev)
  from sanitizeIdentifier_examples [where sep = "CHR ''-''" and before = "''user''"
      and after = "''name''" and c = "CHR ''n''" and key = "''123test''" and d = "CHR ''1''"
      and rest = "''23test''"]
  have one: "toPascalCase ''user-name'' = toPascalCase ''user'' @ toPascalCase ''name''"
    and two: "sanitizeIdentifier ''123test'' = CHR ''_'' # ''123test''"
    and three: "\<not> isDigit (hd (sanitizeIdentifier ''123test''))"
    using sep p1 d s123 by simp_all
  from sanitizeIdentifier_examples [where sep = "CHR ''-''" and before = "''user''"
      and after = "''name''" and c = "CHR ''n''" and key = "''interface''" and d = "CHR ''1''"
      and rest = "''23test''"]
  have four: "sanitizeIdentifier ''interface'' = ''Interface'' @ ''_''"
    and five: "map toLower (sanitizeIdentifier ''interface'') \<notin> set reservedWords"
    using r pi by (simp_all add: ev)
  from sep n name p1 d r one two three four five show ?thesis by simp
qed

end
